theory Spec2Isabelle
  imports Main "HOL-Library.Word"
begin

section \<open>The typing input command of ckeditor5-typing\<close>

text \<open>
  The development embeds \<^verbatim>\<open>packages/ckeditor5-typing/src/inputcommand.js\<close>: the class
  \<^verbatim>\<open>InputCommand\<close> with its constructor, \<^verbatim>\<open>destroy\<close>, the \<^verbatim>\<open>buffer\<close> getter and
  \<^verbatim>\<open>_doExecute\<close>. The command talks to collaborators whose code lives elsewhere: the
  document model (ranges, positions, selections, batches, \<^verbatim>\<open>enqueueChanges\<close>), the base
  \<^verbatim>\<open>Command\<close> class and \<^verbatim>\<open>ChangeBuffer\<close>. Those are modelled from the specification and
  marked so at each definition.

  Mutation is explicit state passing. A \<^emph>\<open>world\<close> holds everything outside the command
  object; the command object itself is a record with its one private field. A JavaScript
  exception is the left summand of the result; the state reached before the throw is not
  returned.
\<close>

subsection \<open>Values of the document model\<close>

text \<open>
  A JavaScript string is a sequence of UTF-16 code units and \<^verbatim>\<open>text.length\<close> counts
  them.
\<close>

type_synonym code_unit = "16 word"
type_synonym js_string = "code_unit list"

text \<open>
  Modelled from the spec: \<^verbatim>\<open>Position\<close> of the document model. The document is taken as
  one flat run of input units and a position is an offset into it; \<^verbatim>\<open>getShiftedBy\<close>
  derives the position shifted by a number of units (never before offset 0).
\<close>

type_synonym position = nat

definition getShiftedBy :: "position \<Rightarrow> int \<Rightarrow> position" where
  "getShiftedBy p shift = nat (int p + shift)"

text \<open>
  Modelled from the spec: \<^verbatim>\<open>Range\<close> of the document model, an immutable pair of
  positions exposing \<^verbatim>\<open>start\<close> and \<^verbatim>\<open>isCollapsed\<close>.
\<close>

record model_range =
  start :: position
  end_pos :: position

definition isCollapsed :: "model_range \<Rightarrow> bool" where
  "isCollapsed r = (start r = end_pos r)"

text \<open>
  Modelled from the spec: \<^verbatim>\<open>Selection\<close>, the ranges it holds in order, with the
  first-range accessor (\<^verbatim>\<open>null\<close> when it holds none) and \<^verbatim>\<open>collapse\<close>.
\<close>

type_synonym selection = "model_range list"

definition getFirstRange :: "selection \<Rightarrow> model_range option" where
  "getFirstRange sel = (case sel of [] \<Rightarrow> None | r # _ \<Rightarrow> Some r)"

definition collapsed_at :: "position \<Rightarrow> selection" where
  "collapsed_at p = [\<lparr>start = p, end_pos = p\<rparr>]"

subsection \<open>The world around the command\<close>

type_synonym ref = nat
type_synonym batch = nat

datatype operation =
    RemoveOperation model_range
  | InsertOperation position js_string

text \<open>The calls the command issues to its collaborators, in the order they are made.\<close>

datatype call =
    Remove_call batch model_range
  | WeakInsert_call batch position js_string
  | Collapse_call ref position
  | Input_call int
  | Command_destroy_call
  | Buffer_destroy_call

datatype error = TypeError | ModelError

text \<open>
  Selection objects live in a store indexed by reference, so that two paths to a
  selection (\<^verbatim>\<open>editor.document.selection\<close> and \<^verbatim>\<open>editor.data.model.selection\<close>) may or may
  not name the same object. \<open>scope\<close> is the open change scope with the operations applied
  in it so far, \<open>changes\<close> the change events observers have received (each with the
  operations it covers), \<open>batch_ops\<close> the operations recorded in every batch and
  \<open>next_batch\<close> the next unused batch handle.
\<close>

record world =
  content :: js_string
  selections :: "ref \<Rightarrow> selection"
  batch_ops :: "batch \<Rightarrow> operation list"
  next_batch :: batch
  scope :: "operation list option"
  changes :: "operation list list"
  calls :: "call list"

text \<open>
  The editor object as the command reaches through it: the two selection objects and the
  side effect that an operation applied to the document has on selection objects
  (live selections follow the content). The side effect is a parameter: the theorems hold
  for every choice of it.
\<close>

record editor =
  document_selection :: ref
  data_model_selection :: ref
  selection_effect :: "operation \<Rightarrow> (ref \<Rightarrow> selection) \<Rightarrow> (ref \<Rightarrow> selection)"

definition log_call :: "call \<Rightarrow> world \<Rightarrow> world" where
  "log_call c w = w\<lparr>calls := calls w @ [c]\<rparr>"

text \<open>
  Modelled from the spec: applying one operation to the document. The content changes, the
  operation is recorded in the batch it was issued through, and observers are told: at
  once when no change scope is open, otherwise when the scope closes.
\<close>

definition applyOperation :: "editor \<Rightarrow> batch \<Rightarrow> operation \<Rightarrow> js_string \<Rightarrow> world \<Rightarrow> world" where
  "applyOperation ed b opn c w =
     w\<lparr>content := c,
       selections := selection_effect ed opn (selections w),
       batch_ops := (batch_ops w)(b := batch_ops w b @ [opn]),
       scope := (case scope w of None \<Rightarrow> None | Some ops \<Rightarrow> Some (ops @ [opn])),
       changes := (case scope w of None \<Rightarrow> changes w @ [[opn]] | Some ops \<Rightarrow> changes w)\<rparr>"

text \<open>
  Modelled from the spec: \<^verbatim>\<open>batch.remove(range)\<close>. A range outside the document is
  rejected by the document model.
\<close>

definition Batch_remove :: "editor \<Rightarrow> batch \<Rightarrow> model_range \<Rightarrow> world \<Rightarrow> error + world" where
  "Batch_remove ed b r w =
     (let w1 = log_call (Remove_call b r) w in
      if start r \<le> end_pos r \<and> end_pos r \<le> length (content w1)
      then Inr (applyOperation ed b (RemoveOperation r)
                  (take (start r) (content w1) @ drop (end_pos r) (content w1)) w1)
      else Inl ModelError)"

text \<open>
  Modelled from the spec: \<^verbatim>\<open>batch.weakInsert(position, text)\<close>, an insertion recorded
  into the batch it is issued through.
\<close>

definition Batch_weakInsert :: "editor \<Rightarrow> batch \<Rightarrow> position \<Rightarrow> js_string \<Rightarrow> world \<Rightarrow> error + world" where
  "Batch_weakInsert ed b p t w =
     (let w1 = log_call (WeakInsert_call b p t) w in
      if p \<le> length (content w1)
      then Inr (applyOperation ed b (InsertOperation p t)
                  (take p (content w1) @ t @ drop p (content w1)) w1)
      else Inl ModelError)"

text \<open>Modelled from the spec: \<^verbatim>\<open>selection.collapse(position)\<close> on the selection object \<open>r\<close>.\<close>

definition Selection_collapse :: "ref \<Rightarrow> position \<Rightarrow> world \<Rightarrow> world" where
  "Selection_collapse r p w =
     (let w1 = log_call (Collapse_call r p) w in
      w1\<lparr>selections := (selections w1)(r := collapsed_at p)\<rparr>)"

subsection \<open>ChangeBuffer\<close>

text \<open>
  Modelled from the spec: \<^verbatim>\<open>ChangeBuffer\<close> (\<^verbatim>\<open>./changebuffer\<close>), the state
  \<^verbatim>\<open>{ currentBatch, unitsSinceSplit, splitThreshold }\<close>. Construction opens a first
  batch with counter 0.
\<close>

record change_buffer =
  currentBatch :: batch
  unitsSinceSplit :: int
  splitThreshold :: int

definition new_ChangeBuffer :: "int \<Rightarrow> world \<Rightarrow> world \<times> change_buffer" where
  "new_ChangeBuffer limit w =
     (w\<lparr>next_batch := Suc (next_batch w)\<rparr>,
      \<lparr>currentBatch = next_batch w, unitsSinceSplit = 0, splitThreshold = limit\<rparr>)"

text \<open>Modelled from the spec: the \<^verbatim>\<open>batch\<close> accessor returns the batch of the open state.\<close>

definition ChangeBuffer_batch :: "change_buffer \<Rightarrow> batch" where
  "ChangeBuffer_batch buf = currentBatch buf"

text \<open>
  Modelled from the spec: \<^verbatim>\<open>input(n)\<close> adds \<open>n\<close> to the counter; when the new count
  has reached the threshold, a fresh batch is opened and the counter is reset to 0.
\<close>

definition ChangeBuffer_input :: "int \<Rightarrow> world \<times> change_buffer \<Rightarrow> world \<times> change_buffer" where
  "ChangeBuffer_input n s =
     (let w1 = log_call (Input_call n) (fst s);
          buf = snd s;
          units = unitsSinceSplit buf + n
      in if units \<ge> splitThreshold buf
         then (w1\<lparr>next_batch := Suc (next_batch w1)\<rparr>,
               buf\<lparr>currentBatch := next_batch w1, unitsSinceSplit := 0\<rparr>)
         else (w1, buf\<lparr>unitsSinceSplit := units\<rparr>))"

text \<open>Modelled from the spec: \<^verbatim>\<open>ChangeBuffer.destroy()\<close>; the buffer is terminal afterwards.\<close>

definition ChangeBuffer_destroy :: "change_buffer \<Rightarrow> world \<Rightarrow> world" where
  "ChangeBuffer_destroy buf w = log_call Buffer_destroy_call w"

text \<open>Modelled from the spec: the teardown of the base \<^verbatim>\<open>Command\<close> class.\<close>

definition Command_destroy :: "world \<Rightarrow> world" where
  "Command_destroy w = log_call Command_destroy_call w"

subsection \<open>InputCommand\<close>

text \<open>The command object: its private field \<^verbatim>\<open>_buffer\<close>, \<open>None\<close> for \<^verbatim>\<open>null\<close>.\<close>

record input_command =
  priv_buffer :: "change_buffer option"

type_synonym state = "world \<times> input_command"

text \<open>\<^verbatim>\<open>constructor( editor, undoStepSize )\<close>.\<close>

definition new_InputCommand :: "int \<Rightarrow> world \<Rightarrow> state" where
  "new_InputCommand undoStepSize w =
     (let (w1, buf) = new_ChangeBuffer undoStepSize w
      in (w1, \<lparr>priv_buffer = Some buf\<rparr>))"

text \<open>\<^verbatim>\<open>get buffer()\<close>.\<close>

definition buffer :: "input_command \<Rightarrow> change_buffer option" where
  "buffer cmd = priv_buffer cmd"

text \<open>
  \<^verbatim>\<open>destroy()\<close>: the base teardown, then the buffer's \<^verbatim>\<open>destroy\<close> (a TypeError when the
  field is already \<^verbatim>\<open>null\<close>), then the field is set to \<^verbatim>\<open>null\<close>.
\<close>

definition destroy :: "state \<Rightarrow> error + state" where
  "destroy s =
     (let w1 = Command_destroy (fst s); cmd = snd s in
      case priv_buffer cmd of
        None \<Rightarrow> Inl TypeError
      | Some buf \<Rightarrow>
          (let w2 = ChangeBuffer_destroy buf w1
           in Inr (w2, cmd\<lparr>priv_buffer := None\<rparr>)))"

text \<open>
  Modelled from the spec: \<^verbatim>\<open>doc.enqueueChanges( callback )\<close> runs the callback
  synchronously inside a change scope. The outermost scope tells observers once, when it
  closes, of all operations applied in it; a nested call runs in the scope already open.
\<close>

definition close_scope :: "world \<Rightarrow> world" where
  "close_scope w =
     (case scope w of
        None \<Rightarrow> w
      | Some ops \<Rightarrow> w\<lparr>scope := None, changes := changes w @ [ops]\<rparr>)"

definition enqueueChanges :: "(state \<Rightarrow> error + state) \<Rightarrow> state \<Rightarrow> error + state" where
  "enqueueChanges callback s =
     (case scope (fst s) of
        Some ops \<Rightarrow> callback s
      | None \<Rightarrow>
          (case callback ((fst s)\<lparr>scope := Some []\<rparr>, snd s) of
             Inl e \<Rightarrow> Inl e
           | Inr s' \<Rightarrow> Inr (close_scope (fst s'), snd s')))"

text \<open>The options object of \<^verbatim>\<open>_doExecute\<close>; \<open>None\<close> is an omitted property.\<close>

record options =
  text_opt :: "js_string option"
  range_opt :: "model_range option"
  resultPosition :: "position option"

definition and_then :: "error + 'a \<Rightarrow> ('a \<Rightarrow> error + 'b) \<Rightarrow> error + 'b" where
  "and_then r f = (case r of Inl e \<Rightarrow> Inl e | Inr x \<Rightarrow> f x)"

text \<open>
  \<^verbatim>\<open>this._buffer.batch.<mutation>( ... )\<close>: the batch is fetched from the buffer at the
  call; reading \<^verbatim>\<open>.batch\<close> of \<^verbatim>\<open>null\<close> is a TypeError.
\<close>

definition with_batch :: "(batch \<Rightarrow> world \<Rightarrow> error + world) \<Rightarrow> state \<Rightarrow> error + state" where
  "with_batch mutation s =
     (case priv_buffer (snd s) of
        None \<Rightarrow> Inl TypeError
      | Some buf \<Rightarrow>
          (case mutation (ChangeBuffer_batch buf) (fst s) of
             Inl e \<Rightarrow> Inl e
           | Inr w' \<Rightarrow> Inr (w', snd s)))"

text \<open>\<^verbatim>\<open>this._buffer.input( n )\<close>.\<close>

definition buffer_input :: "int \<Rightarrow> state \<Rightarrow> error + state" where
  "buffer_input n s =
     (case priv_buffer (snd s) of
        None \<Rightarrow> Inl TypeError
      | Some buf \<Rightarrow>
          (let (w', buf') = ChangeBuffer_input n (fst s, buf)
           in Inr (w', (snd s)\<lparr>priv_buffer := Some buf'\<rparr>)))"

text \<open>
  \<^verbatim>\<open>_doExecute( options = {} )\<close>. \<^verbatim>\<open>options.text || ''\<close> and
  \<^verbatim>\<open>options.range || doc.selection.getFirstRange()\<close> are resolved before the change scope
  is entered; a \<^verbatim>\<open>null\<close> range fails at \<^verbatim>\<open>range.isCollapsed\<close>.
\<close>

definition doExecute :: "editor \<Rightarrow> options \<Rightarrow> state \<Rightarrow> error + state" where
  "doExecute ed opts s0 =
     (let text = (case text_opt opts of None \<Rightarrow> [] | Some t \<Rightarrow> t);
          textInsertions = int (length text);
          range_or_null = (case range_opt opts of
                     Some r \<Rightarrow> Some r
                   | None \<Rightarrow> getFirstRange (selections (fst s0) (document_selection ed)));
          resultPosition = resultPosition opts
      in enqueueChanges (\<lambda>s.
           case range_or_null of
             None \<Rightarrow> Inl TypeError
           | Some rng \<Rightarrow>
               (let isCollapsedRange = isCollapsed rng in
                and_then
                  (if \<not> isCollapsedRange
                   then with_batch (\<lambda>b. Batch_remove ed b rng) s
                   else Inr s)
                  (\<lambda>s1.
                and_then
                  (with_batch (\<lambda>b. Batch_weakInsert ed b (start rng) text) s1)
                  (\<lambda>s2.
                let s3 =
                  (case resultPosition of
                     Some p \<Rightarrow>
                       (Selection_collapse (data_model_selection ed) p (fst s2), snd s2)
                   | None \<Rightarrow>
                       if isCollapsedRange
                       then (Selection_collapse (data_model_selection ed)
                               (getShiftedBy (start rng) textInsertions) (fst s2), snd s2)
                       else s2)
                in buffer_input textInsertions s3)))) s0)"


subsection \<open>Sequences of executions\<close>

text \<open>
  The input layer calls the command once per input event. \<open>execute_all\<close> runs the calls
  of a list of option objects one after the other and stops at the first exception.
  \<open>textInsertions_of\<close> is the number of units a call reports, \<^verbatim>\<open>text.length\<close> of the
  resolved text.
\<close>

fun execute_all :: "editor \<Rightarrow> options list \<Rightarrow> state \<Rightarrow> error + state" where
  "execute_all ed [] s = Inr s"
| "execute_all ed (opts # rest) s =
     (case doExecute ed opts s of Inl e \<Rightarrow> Inl e | Inr s' \<Rightarrow> execute_all ed rest s')"

definition textInsertions_of :: "options \<Rightarrow> int" where
  "textInsertions_of opts = int (length (case text_opt opts of None \<Rightarrow> [] | Some t \<Rightarrow> t))"

definition total_units :: "options list \<Rightarrow> int" where
  "total_units os = sum_list (map textInsertions_of os)"

text \<open>The batch a logged call was issued through, for the calls that mutate the document.\<close>

fun call_batch :: "call \<Rightarrow> batch option" where
  "call_batch (Remove_call b r) = Some b"
| "call_batch (WeakInsert_call b p t) = Some b"
| "call_batch c = None"

subsection \<open>Concrete editors and states\<close>

text \<open>
  A side effect of document operations on the selection object \<open>d\<close>, as a live selection
  has it: after a removal the selection sits where the range began, after an insertion
  behind the inserted text.
\<close>

definition live_selection :: "ref \<Rightarrow> operation \<Rightarrow> (ref \<Rightarrow> selection) \<Rightarrow> (ref \<Rightarrow> selection)" where
  "live_selection d opn sels =
     (case opn of
        RemoveOperation r \<Rightarrow> sels(d := collapsed_at (start r))
      | InsertOperation p t \<Rightarrow> sels(d := collapsed_at (p + length t)))"

text \<open>An editor whose two paths reach the same selection object, and one where they differ.\<close>

definition editor_shared :: editor where
  "editor_shared =
     \<lparr>document_selection = 0, data_model_selection = 0, selection_effect = live_selection 0\<rparr>"


text \<open>
  A document holding the five units of \<^verbatim>\<open>hello\<close> with the units at offsets 1 and 2
  selected, as it stands after a command has been constructed in it with batch 0.
\<close>

definition world_hello :: world where
  "world_hello =
     \<lparr>content = [104, 101, 108, 108, 111],
      selections = (\<lambda>r. [\<lparr>start = 1, end_pos = 3\<rparr>]),
      batch_ops = (\<lambda>b. []),
      next_batch = 1,
      scope = None,
      changes = [],
      calls = []\<rparr>"

definition command_with :: "int \<Rightarrow> input_command" where
  "command_with limit =
     \<lparr>priv_buffer = Some \<lparr>currentBatch = 0, unitsSinceSplit = 0, splitThreshold = limit\<rparr>\<rparr>"

section \<open>Properties\<close>

subsection \<open>What one execution does\<close>

lemmas model_defs = doExecute_def enqueueChanges_def and_then_def with_batch_def buffer_input_def
  Batch_remove_def Batch_weakInsert_def applyOperation_def Selection_collapse_def log_call_def
  ChangeBuffer_input_def ChangeBuffer_batch_def close_scope_def isCollapsed_def getShiftedBy_def

lemma doExecute_explicit:
  assumes buf: "priv_buffer cmd = Some buf"
    and ord: "start R \<le> end_pos R"
    and inside: "end_pos R \<le> length (content w)"
  shows "\<exists>w' cmd'.
    doExecute ed \<lparr>text_opt = Some T, range_opt = Some R, resultPosition = rp\<rparr> (w, cmd) = Inr (w', cmd')
    \<and> content w' = take (start R) (content w) @ T @ drop (end_pos R) (content w)
    \<and> scope w' = (case scope w of None \<Rightarrow> None | Some ops \<Rightarrow> Some (ops @
         (if start R = end_pos R then [] else [RemoveOperation R]) @ [InsertOperation (start R) T]))
    \<and> changes w' = (case scope w of None \<Rightarrow> changes w @
         [(if start R = end_pos R then [] else [RemoveOperation R]) @ [InsertOperation (start R) T]]
         | Some ops \<Rightarrow> changes w)
    \<and> batch_ops w' = (batch_ops w)(currentBatch buf := batch_ops w (currentBatch buf) @
         (if start R = end_pos R then [] else [RemoveOperation R]) @ [InsertOperation (start R) T])
    \<and> calls w' = calls w @
         (if start R = end_pos R then [] else [Remove_call (currentBatch buf) R]) @
         [WeakInsert_call (currentBatch buf) (start R) T] @
         (case rp of Some p \<Rightarrow> [Collapse_call (data_model_selection ed) p]
          | None \<Rightarrow> if start R = end_pos R
                    then [Collapse_call (data_model_selection ed) (start R + length T)] else []) @
         [Input_call (int (length T))]
    \<and> selections w' =
         (let sel = selection_effect ed (InsertOperation (start R) T)
                      (if start R = end_pos R then selections w
                       else selection_effect ed (RemoveOperation R) (selections w))
          in case rp of Some p \<Rightarrow> sel(data_model_selection ed := collapsed_at p)
             | None \<Rightarrow> if start R = end_pos R
                       then sel(data_model_selection ed := collapsed_at (start R + length T))
                       else sel)
    \<and> next_batch w' =
         (if splitThreshold buf \<le> unitsSinceSplit buf + int (length T)
          then Suc (next_batch w) else next_batch w)
    \<and> cmd' = cmd\<lparr>priv_buffer := Some
         (if splitThreshold buf \<le> unitsSinceSplit buf + int (length T)
          then buf\<lparr>currentBatch := next_batch w, unitsSinceSplit := 0\<rparr>
          else buf\<lparr>unitsSinceSplit := unitsSinceSplit buf + int (length T)\<rparr>)\<rparr>"
  using assms
  by (cases rp; cases "start R = end_pos R"; cases "scope w")
     (simp_all add: model_defs Let_def nat_int_add split: prod.splits)

lemma doExecute_defaults:
  "doExecute ed opts (w, cmd) =
   doExecute ed
     \<lparr>text_opt = Some (case text_opt opts of None \<Rightarrow> [] | Some t \<Rightarrow> t),
      range_opt = (case range_opt opts of Some r \<Rightarrow> Some r
                   | None \<Rightarrow> getFirstRange (selections w (document_selection ed))),
      resultPosition = resultPosition opts\<rparr> (w, cmd)"
  by (cases "text_opt opts"; cases "range_opt opts";
      cases "getFirstRange (selections w (document_selection ed))")
     (simp_all add: doExecute_def)

lemma doExecute_result:
  assumes buf: "priv_buffer cmd = Some buf"
    and text_eq: "T = (case text_opt opts of None \<Rightarrow> [] | Some t \<Rightarrow> t)"
    and range_eq: "(case range_opt opts of Some r \<Rightarrow> Some r
               | None \<Rightarrow> getFirstRange (selections w (document_selection ed))) = Some R"
    and ord: "start R \<le> end_pos R"
    and inside: "end_pos R \<le> length (content w)"
  shows "\<exists>w' cmd'.
    doExecute ed opts (w, cmd) = Inr (w', cmd')
    \<and> content w' = take (start R) (content w) @ T @ drop (end_pos R) (content w)
    \<and> scope w' = (case scope w of None \<Rightarrow> None | Some ops \<Rightarrow> Some (ops @
         (if start R = end_pos R then [] else [RemoveOperation R]) @ [InsertOperation (start R) T]))
    \<and> changes w' = (case scope w of None \<Rightarrow> changes w @
         [(if start R = end_pos R then [] else [RemoveOperation R]) @ [InsertOperation (start R) T]]
         | Some ops \<Rightarrow> changes w)
    \<and> batch_ops w' = (batch_ops w)(currentBatch buf := batch_ops w (currentBatch buf) @
         (if start R = end_pos R then [] else [RemoveOperation R]) @ [InsertOperation (start R) T])
    \<and> calls w' = calls w @
         (if start R = end_pos R then [] else [Remove_call (currentBatch buf) R]) @
         [WeakInsert_call (currentBatch buf) (start R) T] @
         (case resultPosition opts of Some p \<Rightarrow> [Collapse_call (data_model_selection ed) p]
          | None \<Rightarrow> if start R = end_pos R
                    then [Collapse_call (data_model_selection ed) (start R + length T)] else []) @
         [Input_call (int (length T))]
    \<and> selections w' =
         (let sel = selection_effect ed (InsertOperation (start R) T)
                      (if start R = end_pos R then selections w
                       else selection_effect ed (RemoveOperation R) (selections w))
          in case resultPosition opts of Some p \<Rightarrow> sel(data_model_selection ed := collapsed_at p)
             | None \<Rightarrow> if start R = end_pos R
                       then sel(data_model_selection ed := collapsed_at (start R + length T))
                       else sel)
    \<and> next_batch w' =
         (if splitThreshold buf \<le> unitsSinceSplit buf + int (length T)
          then Suc (next_batch w) else next_batch w)
    \<and> cmd' = cmd\<lparr>priv_buffer := Some
         (if splitThreshold buf \<le> unitsSinceSplit buf + int (length T)
          then buf\<lparr>currentBatch := next_batch w, unitsSinceSplit := 0\<rparr>
          else buf\<lparr>unitsSinceSplit := unitsSinceSplit buf + int (length T)\<rparr>)\<rparr>"
  using doExecute_explicit [OF buf ord inside, of ed T "resultPosition opts"]
  by (simp add: doExecute_defaults [of ed opts] text_eq range_eq)

lemma doExecute_InrD:
  assumes "doExecute ed opts (w, cmd) = Inr s'"
  shows "\<exists>buf R. priv_buffer cmd = Some buf
    \<and> (case range_opt opts of Some r \<Rightarrow> Some r
        | None \<Rightarrow> getFirstRange (selections w (document_selection ed))) = Some R
    \<and> start R \<le> end_pos R \<and> end_pos R \<le> length (content w)"
  using assms
  by (auto simp: model_defs Let_def split: option.splits if_splits sum.splits prod.splits)



subsection \<open>Replacing a range\<close>

text \<open>
  C1. For a non-collapsed range \<open>R\<close> inside the document and a text \<open>T\<close>, an execution
  with \<^verbatim>\<open>{range: R, text: T}\<close> (with or without a result position) succeeds; the content
  afterwards is the content before \<open>R\<close>, then \<open>T\<close>, then the content behind \<open>R\<close>; and
  observers receive exactly one change event, which covers the removal followed by the
  insertion at the start of \<open>R\<close>: both were applied inside the one change scope, which is
  closed again at the end.
\<close>

theorem execute_replaces_range_in_one_scope:
  assumes "priv_buffer cmd = Some buf"
    and "scope w = None"
    and "\<not> isCollapsed R"
    and "start R \<le> end_pos R"
    and "end_pos R \<le> length (content w)"
  shows "\<exists>w' cmd'.
    doExecute ed \<lparr>text_opt = Some T, range_opt = Some R, resultPosition = rp\<rparr> (w, cmd)
      = Inr (w', cmd')
    \<and> content w' = take (start R) (content w) @ T @ drop (end_pos R) (content w)
    \<and> changes w' = changes w @ [[RemoveOperation R, InsertOperation (start R) T]]
    \<and> scope w' = None"
  using doExecute_explicit [OF assms(1,4,5), of ed T rp] assms(2,3)
  by (auto simp: isCollapsed_def)

theorem execute_replaces_range_in_one_scope_witness:
  "priv_buffer (command_with 5) =
     Some \<lparr>currentBatch = 0, unitsSinceSplit = 0, splitThreshold = 5\<rparr>
   \<and> scope world_hello = None
   \<and> \<not> isCollapsed \<lparr>start = 1, end_pos = 3\<rparr>
   \<and> start \<lparr>start = 1, end_pos = 3\<rparr> \<le> end_pos \<lparr>start = 1, end_pos = 3\<rparr>
   \<and> end_pos \<lparr>start = 1, end_pos = 3\<rparr> \<le> length (content world_hello)
   \<and> (\<exists>w' cmd'.
        doExecute editor_shared
          \<lparr>text_opt = Some [120, 121, 122], range_opt = Some \<lparr>start = 1, end_pos = 3\<rparr>,
           resultPosition = None\<rparr> (world_hello, command_with 5) = Inr (w', cmd')
        \<and> content w' = [104, 120, 121, 122, 108, 111]
        \<and> changes w' =
            [[RemoveOperation \<lparr>start = 1, end_pos = 3\<rparr>, InsertOperation 1 [120, 121, 122]]]
        \<and> scope w' = None)"
proof -
  have b: "priv_buffer (command_with 5) =
      Some \<lparr>currentBatch = 0, unitsSinceSplit = 0, splitThreshold = 5\<rparr>"
    by (simp add: command_with_def)
  have s: "scope world_hello = None"
    by (simp add: world_hello_def)
  have n: "\<not> isCollapsed \<lparr>start = 1, end_pos = 3\<rparr>"
    by (simp add: isCollapsed_def)
  have o: "start \<lparr>start = 1, end_pos = 3\<rparr> \<le> end_pos \<lparr>start = 1, end_pos = 3\<rparr>"
    by simp
  have i: "end_pos \<lparr>start = 1, end_pos = 3\<rparr> \<le> length (content world_hello)"
    by (simp add: world_hello_def)
  from execute_replaces_range_in_one_scope [OF b s n o i, of editor_shared "[120, 121, 122]" None]
  have "\<exists>w' cmd'.
        doExecute editor_shared
          \<lparr>text_opt = Some [120, 121, 122], range_opt = Some \<lparr>start = 1, end_pos = 3\<rparr>,
           resultPosition = None\<rparr> (world_hello, command_with 5) = Inr (w', cmd')
        \<and> content w' = [104, 120, 121, 122, 108, 111]
        \<and> changes w' =
            [[RemoveOperation \<lparr>start = 1, end_pos = 3\<rparr>, InsertOperation 1 [120, 121, 122]]]
        \<and> scope w' = None"
    by (simp add: world_hello_def)
  with b s n o i show ?thesis by blast
qed

subsection \<open>Where the selection ends\<close>

text \<open>
  C2. For a collapsed range at a position \<open>P\<close> of the document, a text \<open>T\<close> and no result
  position, the execution succeeds and leaves the selection it positions
  (\<^verbatim>\<open>editor.data.model.selection\<close>) collapsed at \<open>P\<close> shifted forward by the length of
  \<open>T\<close>, that is at offset \<open>P + length T\<close>.
\<close>

theorem collapsed_range_selection_shifted:
  assumes "priv_buffer cmd = Some buf"
    and "isCollapsed R"
    and "start R \<le> length (content w)"
  shows "\<exists>w' cmd'.
    doExecute ed \<lparr>text_opt = Some T, range_opt = Some R, resultPosition = None\<rparr> (w, cmd)
      = Inr (w', cmd')
    \<and> selections w' (data_model_selection ed)
        = collapsed_at (getShiftedBy (start R) (int (length T)))
    \<and> getShiftedBy (start R) (int (length T)) = start R + length T"
proof -
  from assms(2) have c: "start R = end_pos R"
    by (simp add: isCollapsed_def)
  with assms(3) have "start R \<le> end_pos R" and "end_pos R \<le> length (content w)"
    by simp_all
  from doExecute_explicit [OF assms(1) this, of ed T None] c show ?thesis
    by (auto simp: getShiftedBy_def nat_int_add)
qed

theorem collapsed_range_selection_shifted_witness:
  "priv_buffer (command_with 5) =
     Some \<lparr>currentBatch = 0, unitsSinceSplit = 0, splitThreshold = 5\<rparr>
   \<and> isCollapsed \<lparr>start = 2, end_pos = 2\<rparr>
   \<and> start \<lparr>start = 2, end_pos = 2\<rparr> \<le> length (content world_hello)
   \<and> (\<exists>w' cmd'.
        doExecute editor_shared
          \<lparr>text_opt = Some [120, 121, 122], range_opt = Some \<lparr>start = 2, end_pos = 2\<rparr>,
           resultPosition = None\<rparr> (world_hello, command_with 5) = Inr (w', cmd')
        \<and> selections w' (document_selection editor_shared) = [\<lparr>start = 5, end_pos = 5\<rparr>])"
proof -
  have b: "priv_buffer (command_with 5) =
      Some \<lparr>currentBatch = 0, unitsSinceSplit = 0, splitThreshold = 5\<rparr>"
    by (simp add: command_with_def)
  have c: "isCollapsed \<lparr>start = 2, end_pos = 2\<rparr>"
    by (simp add: isCollapsed_def)
  have i: "start \<lparr>start = 2, end_pos = 2\<rparr> \<le> length (content world_hello)"
    by (simp add: world_hello_def)
  from collapsed_range_selection_shifted [OF b c i, of editor_shared "[120, 121, 122]"]
  have "\<exists>w' cmd'.
        doExecute editor_shared
          \<lparr>text_opt = Some [120, 121, 122], range_opt = Some \<lparr>start = 2, end_pos = 2\<rparr>,
           resultPosition = None\<rparr> (world_hello, command_with 5) = Inr (w', cmd')
        \<and> selections w' (document_selection editor_shared) = [\<lparr>start = 5, end_pos = 5\<rparr>]"
    by (auto simp: editor_shared_def collapsed_at_def)
  with b c i show ?thesis by blast
qed

text \<open>
  C3. Whenever the options carry a result position \<open>X\<close>, whatever the text and whether
  the range (given, or taken from the document selection) is collapsed or not, the
  execution succeeds on a range inside the document and leaves the selection it positions
  collapsed exactly at \<open>X\<close>.
\<close>

theorem result_position_wins:
  assumes "priv_buffer cmd = Some buf"
    and "resultPosition opts = Some X"
    and "(case range_opt opts of Some r \<Rightarrow> Some r
          | None \<Rightarrow> getFirstRange (selections w (document_selection ed))) = Some R"
    and "start R \<le> end_pos R"
    and "end_pos R \<le> length (content w)"
  shows "\<exists>w' cmd'.
    doExecute ed opts (w, cmd) = Inr (w', cmd')
    \<and> selections w' (data_model_selection ed) = collapsed_at X"
  using doExecute_result [OF assms(1) refl assms(3,4,5)] assms(2)
  by (auto simp: Let_def)

theorem result_position_wins_witness:
  "priv_buffer (command_with 5) =
     Some \<lparr>currentBatch = 0, unitsSinceSplit = 0, splitThreshold = 5\<rparr>
   \<and> resultPosition \<lparr>text_opt = Some [120], range_opt = None, resultPosition = Some 4\<rparr> = Some 4
   \<and> getFirstRange (selections world_hello (document_selection editor_shared))
       = Some \<lparr>start = 1, end_pos = 3\<rparr>
   \<and> start \<lparr>start = 1, end_pos = 3\<rparr> \<le> end_pos \<lparr>start = 1, end_pos = 3\<rparr>
   \<and> end_pos \<lparr>start = 1, end_pos = 3\<rparr> \<le> length (content world_hello)
   \<and> (\<exists>w' cmd'.
        doExecute editor_shared
          \<lparr>text_opt = Some [120], range_opt = None, resultPosition = Some 4\<rparr>
          (world_hello, command_with 5) = Inr (w', cmd')
        \<and> selections w' (data_model_selection editor_shared) = [\<lparr>start = 4, end_pos = 4\<rparr>])"
proof -
  let ?opts = "\<lparr>text_opt = Some [120], range_opt = None, resultPosition = Some 4\<rparr>"
  have b: "priv_buffer (command_with 5) =
      Some \<lparr>currentBatch = 0, unitsSinceSplit = 0, splitThreshold = 5\<rparr>"
    by (simp add: command_with_def)
  have x: "resultPosition ?opts = Some 4"
    by simp
  have f: "getFirstRange (selections world_hello (document_selection editor_shared))
       = Some \<lparr>start = 1, end_pos = 3\<rparr>"
    by (simp add: getFirstRange_def world_hello_def)
  then have r: "(case range_opt ?opts of Some r \<Rightarrow> Some r
          | None \<Rightarrow> getFirstRange (selections world_hello (document_selection editor_shared)))
       = Some \<lparr>start = 1, end_pos = 3\<rparr>"
    by simp
  have o: "start \<lparr>start = 1, end_pos = 3\<rparr> \<le> end_pos \<lparr>start = 1, end_pos = 3\<rparr>"
    by simp
  have i: "end_pos \<lparr>start = 1, end_pos = 3\<rparr> \<le> length (content world_hello)"
    by (simp add: world_hello_def)
  from result_position_wins [OF b x r o i]
  have "\<exists>w' cmd'.
        doExecute editor_shared ?opts (world_hello, command_with 5) = Inr (w', cmd')
        \<and> selections w' (data_model_selection editor_shared) = [\<lparr>start = 4, end_pos = 4\<rparr>]"
    by (simp add: collapsed_at_def)
  with b x f o i show ?thesis by blast
qed

text \<open>
  C8. For a non-collapsed range inside the document and no result position, the calls of
  the execution are the removal, the insertion and the report to the buffer, in this
  order: no \<^verbatim>\<open>collapse\<close> is called on any selection. The selection objects end as the
  side effects of the removal and then of the insertion leave them.
\<close>

theorem no_repositioning_for_replaced_range:
  assumes "priv_buffer cmd = Some buf"
    and "\<not> isCollapsed R"
    and "start R \<le> end_pos R"
    and "end_pos R \<le> length (content w)"
  shows "\<exists>w' cmd'.
    doExecute ed \<lparr>text_opt = Some T, range_opt = Some R, resultPosition = None\<rparr> (w, cmd)
      = Inr (w', cmd')
    \<and> calls w' = calls w @
         [Remove_call (ChangeBuffer_batch buf) R,
          WeakInsert_call (ChangeBuffer_batch buf) (start R) T,
          Input_call (int (length T))]
    \<and> (\<forall>c \<in> set (calls w') - set (calls w). \<forall>r p. c \<noteq> Collapse_call r p)
    \<and> selections w' =
         selection_effect ed (InsertOperation (start R) T)
           (selection_effect ed (RemoveOperation R) (selections w))"
  using doExecute_explicit [OF assms(1,3,4), of ed T None] assms(2)
  by (auto simp: isCollapsed_def ChangeBuffer_batch_def)

theorem no_repositioning_for_replaced_range_witness:
  "priv_buffer (command_with 5) =
     Some \<lparr>currentBatch = 0, unitsSinceSplit = 0, splitThreshold = 5\<rparr>
   \<and> \<not> isCollapsed \<lparr>start = 1, end_pos = 3\<rparr>
   \<and> start \<lparr>start = 1, end_pos = 3\<rparr> \<le> end_pos \<lparr>start = 1, end_pos = 3\<rparr>
   \<and> end_pos \<lparr>start = 1, end_pos = 3\<rparr> \<le> length (content world_hello)
   \<and> (\<exists>w' cmd'.
        doExecute editor_shared
          \<lparr>text_opt = Some [120], range_opt = Some \<lparr>start = 1, end_pos = 3\<rparr>,
           resultPosition = None\<rparr> (world_hello, command_with 5) = Inr (w', cmd')
        \<and> calls w' =
            [Remove_call 0 \<lparr>start = 1, end_pos = 3\<rparr>, WeakInsert_call 0 1 [120], Input_call 1]
        \<and> selections w' 0 = [\<lparr>start = 2, end_pos = 2\<rparr>])"
proof -
  have b: "priv_buffer (command_with 5) =
      Some \<lparr>currentBatch = 0, unitsSinceSplit = 0, splitThreshold = 5\<rparr>"
    by (simp add: command_with_def)
  have n: "\<not> isCollapsed \<lparr>start = 1, end_pos = 3\<rparr>"
    by (simp add: isCollapsed_def)
  have o: "start \<lparr>start = 1, end_pos = 3\<rparr> \<le> end_pos \<lparr>start = 1, end_pos = 3\<rparr>"
    by simp
  have i: "end_pos \<lparr>start = 1, end_pos = 3\<rparr> \<le> length (content world_hello)"
    by (simp add: world_hello_def)
  from no_repositioning_for_replaced_range [OF b n o i, of editor_shared "[120]"]
  have "\<exists>w' cmd'.
        doExecute editor_shared
          \<lparr>text_opt = Some [120], range_opt = Some \<lparr>start = 1, end_pos = 3\<rparr>,
           resultPosition = None\<rparr> (world_hello, command_with 5) = Inr (w', cmd')
        \<and> calls w' =
            [Remove_call 0 \<lparr>start = 1, end_pos = 3\<rparr>, WeakInsert_call 0 1 [120], Input_call 1]
        \<and> selections w' 0 = [\<lparr>start = 2, end_pos = 2\<rparr>]"
    by (auto simp: world_hello_def editor_shared_def ChangeBuffer_batch_def
          live_selection_def collapsed_at_def)
  with b n o i show ?thesis by blast
qed

subsection \<open>The report to the buffer\<close>

text \<open>
  C5. In every execution on a range inside the document, the calls made are some calls
  \<open>pre\<close> followed by one \<^verbatim>\<open>input\<close> call carrying \<^verbatim>\<open>text.length\<close>: \<open>pre\<close> holds no
  \<^verbatim>\<open>input\<close> call, it holds the insertion and (for a non-collapsed range) the removal, and
  every mutation in it was issued through the batch the buffer held when the execution
  began. That batch records the removal (if any) and the insertion; no other batch
  records anything.
\<close>

theorem input_reported_once_after_mutations:
  assumes "priv_buffer cmd = Some buf"
    and "T = (case text_opt opts of None \<Rightarrow> [] | Some t \<Rightarrow> t)"
    and "(case range_opt opts of Some r \<Rightarrow> Some r
          | None \<Rightarrow> getFirstRange (selections w (document_selection ed))) = Some R"
    and "start R \<le> end_pos R"
    and "end_pos R \<le> length (content w)"
  shows "\<exists>w' cmd' pre.
    doExecute ed opts (w, cmd) = Inr (w', cmd')
    \<and> calls w' = calls w @ pre @ [Input_call (int (length T))]
    \<and> (\<forall>c \<in> set pre. \<forall>n. c \<noteq> Input_call n)
    \<and> WeakInsert_call (ChangeBuffer_batch buf) (start R) T \<in> set pre
    \<and> (\<not> isCollapsed R \<longrightarrow> Remove_call (ChangeBuffer_batch buf) R \<in> set pre)
    \<and> (\<forall>c \<in> set pre. call_batch c = None \<or> call_batch c = Some (ChangeBuffer_batch buf))
    \<and> batch_ops w' = (batch_ops w)(ChangeBuffer_batch buf :=
         batch_ops w (ChangeBuffer_batch buf) @
         (if isCollapsed R then [] else [RemoveOperation R]) @ [InsertOperation (start R) T])"
proof -
  let ?b = "ChangeBuffer_batch buf"
  let ?pre = "(if start R = end_pos R then [] else [Remove_call ?b R]) @
         [WeakInsert_call ?b (start R) T] @
         (case resultPosition opts of Some p \<Rightarrow> [Collapse_call (data_model_selection ed) p]
          | None \<Rightarrow> if start R = end_pos R
                    then [Collapse_call (data_model_selection ed) (start R + length T)] else [])"
  from doExecute_result [OF assms]
  obtain w' cmd' where run: "doExecute ed opts (w, cmd) = Inr (w', cmd')"
    and log: "calls w' = calls w @ ?pre @ [Input_call (int (length T))]"
    and ops: "batch_ops w' = (batch_ops w)(?b := batch_ops w ?b @
         (if start R = end_pos R then [] else [RemoveOperation R]) @ [InsertOperation (start R) T])"
    by (auto simp: ChangeBuffer_batch_def)
  have "\<forall>c \<in> set ?pre. \<forall>n. c \<noteq> Input_call n"
    by (auto split: option.splits)
  moreover have "WeakInsert_call ?b (start R) T \<in> set ?pre"
    by simp
  moreover have "\<not> isCollapsed R \<longrightarrow> Remove_call ?b R \<in> set ?pre"
    by (simp add: isCollapsed_def)
  moreover have "\<forall>c \<in> set ?pre. call_batch c = None \<or> call_batch c = Some ?b"
    by (auto split: option.splits)
  ultimately show ?thesis
    using run log ops unfolding isCollapsed_def by blast
qed

theorem input_reported_once_after_mutations_witness:
  "priv_buffer (command_with 5) =
     Some \<lparr>currentBatch = 0, unitsSinceSplit = 0, splitThreshold = 5\<rparr>
   \<and> start \<lparr>start = 1, end_pos = 3\<rparr> \<le> end_pos \<lparr>start = 1, end_pos = 3\<rparr>
   \<and> end_pos \<lparr>start = 1, end_pos = 3\<rparr> \<le> length (content world_hello)
   \<and> (\<exists>w' cmd' pre.
        doExecute editor_shared
          \<lparr>text_opt = Some [120, 121], range_opt = Some \<lparr>start = 1, end_pos = 3\<rparr>,
           resultPosition = Some 3\<rparr> (world_hello, command_with 5) = Inr (w', cmd')
        \<and> calls w' = pre @ [Input_call 2]
        \<and> Remove_call 0 \<lparr>start = 1, end_pos = 3\<rparr> \<in> set pre
        \<and> WeakInsert_call 0 1 [120, 121] \<in> set pre
        \<and> batch_ops w' 0 =
            [RemoveOperation \<lparr>start = 1, end_pos = 3\<rparr>, InsertOperation 1 [120, 121]]
        \<and> batch_ops w' 1 = [])"
proof -
  let ?opts = "\<lparr>text_opt = Some [120, 121], range_opt = Some \<lparr>start = 1, end_pos = 3\<rparr>,
           resultPosition = Some 3\<rparr>"
  have b: "priv_buffer (command_with 5) =
      Some \<lparr>currentBatch = 0, unitsSinceSplit = 0, splitThreshold = 5\<rparr>"
    by (simp add: command_with_def)
  have t: "[120, 121] = (case text_opt ?opts of None \<Rightarrow> [] | Some t \<Rightarrow> t)"
    by simp
  have r: "(case range_opt ?opts of Some r \<Rightarrow> Some r
          | None \<Rightarrow> getFirstRange (selections world_hello (document_selection editor_shared)))
       = Some \<lparr>start = 1, end_pos = 3\<rparr>"
    by simp
  have o: "start \<lparr>start = 1, end_pos = 3\<rparr> \<le> end_pos \<lparr>start = 1, end_pos = 3\<rparr>"
    by simp
  have i: "end_pos \<lparr>start = 1, end_pos = 3\<rparr> \<le> length (content world_hello)"
    by (simp add: world_hello_def)
  from input_reported_once_after_mutations [OF b t r o i]
  obtain w' cmd' pre where
    run: "doExecute editor_shared ?opts (world_hello, command_with 5) = Inr (w', cmd')"
    and log: "calls w' = calls world_hello @ pre @ [Input_call (int (length [120, 121 :: code_unit]))]"
    and ins: "WeakInsert_call
        (ChangeBuffer_batch \<lparr>currentBatch = 0, unitsSinceSplit = 0, splitThreshold = 5\<rparr>)
        (start \<lparr>start = 1, end_pos = 3\<rparr>) [120, 121] \<in> set pre"
    and rem: "\<not> isCollapsed \<lparr>start = 1, end_pos = 3\<rparr> \<longrightarrow>
      Remove_call (ChangeBuffer_batch \<lparr>currentBatch = 0, unitsSinceSplit = 0, splitThreshold = 5\<rparr>)
        \<lparr>start = 1, end_pos = 3\<rparr> \<in> set pre"
    and ops: "batch_ops w' = (batch_ops world_hello)
        (ChangeBuffer_batch \<lparr>currentBatch = 0, unitsSinceSplit = 0, splitThreshold = 5\<rparr> :=
           batch_ops world_hello
             (ChangeBuffer_batch \<lparr>currentBatch = 0, unitsSinceSplit = 0, splitThreshold = 5\<rparr>) @
           (if isCollapsed \<lparr>start = 1, end_pos = 3\<rparr> then []
            else [RemoveOperation \<lparr>start = 1, end_pos = 3\<rparr>]) @
           [InsertOperation (start \<lparr>start = 1, end_pos = 3\<rparr>) [120, 121]])"
    by blast
  have c1: "calls w' = pre @ [Input_call 2]"
    using log by (simp add: world_hello_def)
  have c2: "Remove_call 0 \<lparr>start = 1, end_pos = 3\<rparr> \<in> set pre"
    using rem by (simp add: isCollapsed_def ChangeBuffer_batch_def)
  have c3: "WeakInsert_call 0 1 [120, 121] \<in> set pre"
    using ins by (simp add: ChangeBuffer_batch_def)
  have c4: "batch_ops w' 0 =
      [RemoveOperation \<lparr>start = 1, end_pos = 3\<rparr>, InsertOperation 1 [120, 121]]"
    by (simp add: ops world_hello_def isCollapsed_def ChangeBuffer_batch_def)
  have c5: "batch_ops w' 1 = []"
    by (simp add: ops world_hello_def isCollapsed_def ChangeBuffer_batch_def)
  from run c1 c2 c3 c4 c5 b o i show ?thesis
    by blast
qed

subsection \<open>Defaults of the options\<close>

text \<open>
  C9. With \<^verbatim>\<open>text\<close> omitted the execution is the one with the empty text; with
  \<^verbatim>\<open>range\<close> omitted it is the one on the first range of the document's selection.
  With both omitted, and that first range inside the document, the execution succeeds,
  the batch records the removal of that range (when it is not collapsed) and the insertion
  of the empty text at its start, and the buffer is told of 0 units.
\<close>

theorem omitted_options_default:
  assumes "priv_buffer cmd = Some buf"
    and "getFirstRange (selections w (document_selection ed)) = Some R"
    and "start R \<le> end_pos R"
    and "end_pos R \<le> length (content w)"
  shows "doExecute ed \<lparr>text_opt = None, range_opt = ropt, resultPosition = rp\<rparr> (w, cmd)
      = doExecute ed \<lparr>text_opt = Some [], range_opt = ropt, resultPosition = rp\<rparr> (w, cmd)
    \<and> doExecute ed \<lparr>text_opt = topt, range_opt = None, resultPosition = rp\<rparr> (w, cmd)
      = doExecute ed \<lparr>text_opt = topt, range_opt = Some R, resultPosition = rp\<rparr> (w, cmd)
    \<and> (\<exists>w' cmd'.
        doExecute ed \<lparr>text_opt = None, range_opt = None, resultPosition = rp\<rparr> (w, cmd)
          = Inr (w', cmd')
        \<and> content w' = take (start R) (content w) @ drop (end_pos R) (content w)
        \<and> batch_ops w' (ChangeBuffer_batch buf) = batch_ops w (ChangeBuffer_batch buf) @
             (if isCollapsed R then [] else [RemoveOperation R]) @ [InsertOperation (start R) []]
        \<and> last (calls w') = Input_call 0)"
proof -
  have text_default:
    "doExecute ed \<lparr>text_opt = None, range_opt = ropt, resultPosition = rp\<rparr> (w, cmd)
      = doExecute ed \<lparr>text_opt = Some [], range_opt = ropt, resultPosition = rp\<rparr> (w, cmd)"
    by (simp add: doExecute_def)
  have range_default:
    "doExecute ed \<lparr>text_opt = topt, range_opt = None, resultPosition = rp\<rparr> (w, cmd)
      = doExecute ed \<lparr>text_opt = topt, range_opt = Some R, resultPosition = rp\<rparr> (w, cmd)"
    by (simp add: doExecute_def assms(2))
  let ?opts = "\<lparr>text_opt = None, range_opt = None, resultPosition = rp\<rparr>"
  have t: "[] = (case text_opt ?opts of None \<Rightarrow> [] | Some t \<Rightarrow> t)"
    by simp
  have r: "(case range_opt ?opts of Some r \<Rightarrow> Some r
          | None \<Rightarrow> getFirstRange (selections w (document_selection ed))) = Some R"
    by (simp add: assms(2))
  from doExecute_result [OF assms(1) t r assms(3,4)]
  obtain w' cmd' where run: "doExecute ed ?opts (w, cmd) = Inr (w', cmd')"
    and cont: "content w' = take (start R) (content w) @ [] @ drop (end_pos R) (content w)"
    and ops: "batch_ops w' = (batch_ops w)(currentBatch buf := batch_ops w (currentBatch buf) @
         (if start R = end_pos R then [] else [RemoveOperation R]) @ [InsertOperation (start R) []])"
    and log: "calls w' = calls w @
         (if start R = end_pos R then [] else [Remove_call (currentBatch buf) R]) @
         [WeakInsert_call (currentBatch buf) (start R) []] @
         (case resultPosition ?opts of Some p \<Rightarrow> [Collapse_call (data_model_selection ed) p]
          | None \<Rightarrow> if start R = end_pos R
                    then [Collapse_call (data_model_selection ed) (start R + length ([]::js_string))]
                    else []) @
         [Input_call (int (length ([]::js_string)))]"
    by blast
  have c1: "content w' = take (start R) (content w) @ drop (end_pos R) (content w)"
    using cont by simp
  have c2: "batch_ops w' (ChangeBuffer_batch buf) = batch_ops w (ChangeBuffer_batch buf) @
             (if isCollapsed R then [] else [RemoveOperation R]) @ [InsertOperation (start R) []]"
    by (simp add: ops ChangeBuffer_batch_def isCollapsed_def)
  have c3: "last (calls w') = Input_call 0"
    by (simp add: log)
  from text_default range_default run c1 c2 c3 show ?thesis
    by blast
qed

theorem omitted_options_default_witness:
  "priv_buffer (command_with 5) =
     Some \<lparr>currentBatch = 0, unitsSinceSplit = 0, splitThreshold = 5\<rparr>
   \<and> getFirstRange (selections world_hello (document_selection editor_shared))
       = Some \<lparr>start = 1, end_pos = 3\<rparr>
   \<and> start \<lparr>start = 1, end_pos = 3\<rparr> \<le> end_pos \<lparr>start = 1, end_pos = 3\<rparr>
   \<and> end_pos \<lparr>start = 1, end_pos = 3\<rparr> \<le> length (content world_hello)
   \<and> (\<exists>w' cmd'.
        doExecute editor_shared \<lparr>text_opt = None, range_opt = None, resultPosition = None\<rparr>
          (world_hello, command_with 5) = Inr (w', cmd')
        \<and> content w' = [104, 108, 111]
        \<and> batch_ops w' 0 =
            [RemoveOperation \<lparr>start = 1, end_pos = 3\<rparr>, InsertOperation 1 []]
        \<and> last (calls w') = Input_call 0)"
proof -
  have b: "priv_buffer (command_with 5) =
      Some \<lparr>currentBatch = 0, unitsSinceSplit = 0, splitThreshold = 5\<rparr>"
    by (simp add: command_with_def)
  have f: "getFirstRange (selections world_hello (document_selection editor_shared))
       = Some \<lparr>start = 1, end_pos = 3\<rparr>"
    by (simp add: getFirstRange_def world_hello_def)
  have o: "start \<lparr>start = 1, end_pos = 3\<rparr> \<le> end_pos \<lparr>start = 1, end_pos = 3\<rparr>"
    by simp
  have i: "end_pos \<lparr>start = 1, end_pos = 3\<rparr> \<le> length (content world_hello)"
    by (simp add: world_hello_def)
  from omitted_options_default [OF b f o i, of None None None]
  obtain w' cmd' where
    run: "doExecute editor_shared \<lparr>text_opt = None, range_opt = None, resultPosition = None\<rparr>
          (world_hello, command_with 5) = Inr (w', cmd')"
    and cont: "content w' = take (start \<lparr>start = 1, end_pos = 3\<rparr>) (content world_hello) @
          drop (end_pos \<lparr>start = 1, end_pos = 3\<rparr>) (content world_hello)"
    and ops: "batch_ops w'
          (ChangeBuffer_batch \<lparr>currentBatch = 0, unitsSinceSplit = 0, splitThreshold = 5\<rparr>) =
        batch_ops world_hello
          (ChangeBuffer_batch \<lparr>currentBatch = 0, unitsSinceSplit = 0, splitThreshold = 5\<rparr>) @
        (if isCollapsed \<lparr>start = 1, end_pos = 3\<rparr> then []
         else [RemoveOperation \<lparr>start = 1, end_pos = 3\<rparr>]) @
        [InsertOperation (start \<lparr>start = 1, end_pos = 3\<rparr>) []]"
    and fin: "last (calls w') = Input_call 0"
    by blast
  have c1: "content w' = [104, 108, 111]"
    by (simp add: cont world_hello_def)
  have c2: "batch_ops w' 0 =
      [RemoveOperation \<lparr>start = 1, end_pos = 3\<rparr>, InsertOperation 1 []]"
    using ops by (simp add: world_hello_def isCollapsed_def ChangeBuffer_batch_def)
  from run c1 c2 fin b f o i show ?thesis
    by blast
qed

subsection \<open>Teardown\<close>

text \<open>
  C7. On a command that holds its buffer, \<^verbatim>\<open>destroy()\<close> succeeds; it calls the base
  teardown first and the buffer's \<^verbatim>\<open>destroy\<close> second, and afterwards the \<^verbatim>\<open>buffer\<close>
  accessor returns \<^verbatim>\<open>null\<close>.
\<close>

theorem destroy_releases_buffer:
  assumes "priv_buffer cmd = Some buf"
  shows "\<exists>w' cmd'.
    destroy (w, cmd) = Inr (w', cmd')
    \<and> calls w' = calls w @ [Command_destroy_call, Buffer_destroy_call]
    \<and> buffer cmd' = None"
  using assms
  by (simp add: destroy_def Command_destroy_def ChangeBuffer_destroy_def log_call_def buffer_def)

theorem destroy_releases_buffer_witness:
  "priv_buffer (snd (new_InputCommand 5 world_hello)) =
     Some \<lparr>currentBatch = 1, unitsSinceSplit = 0, splitThreshold = 5\<rparr>
   \<and> (\<exists>w' cmd'.
        destroy (fst (new_InputCommand 5 world_hello), snd (new_InputCommand 5 world_hello))
          = Inr (w', cmd')
        \<and> calls w' = calls (fst (new_InputCommand 5 world_hello)) @
            [Command_destroy_call, Buffer_destroy_call]
        \<and> buffer cmd' = None)"
proof -
  have b: "priv_buffer (snd (new_InputCommand 5 world_hello)) =
     Some \<lparr>currentBatch = 1, unitsSinceSplit = 0, splitThreshold = 5\<rparr>"
    by (simp add: new_InputCommand_def new_ChangeBuffer_def world_hello_def)
  from destroy_releases_buffer [OF b] b show ?thesis
    by blast
qed

subsection \<open>Which selection object is touched\<close>



subsection \<open>Empty input at the cursor\<close>

text \<open>
  A buffer built with a positive threshold keeps its counter below the threshold: it
  starts at 0, and every report either stays below or resets to 0.
\<close>

lemma new_InputCommand_below:
  assumes "0 < K"
  shows "\<exists>buf. priv_buffer (snd (new_InputCommand K w)) = Some buf
    \<and> 0 \<le> unitsSinceSplit buf \<and> unitsSinceSplit buf < splitThreshold buf"
  using assms by (simp add: new_InputCommand_def new_ChangeBuffer_def)

lemma doExecute_keeps_below:
  assumes "doExecute ed opts (w, cmd) = Inr (w', cmd')"
    and "priv_buffer cmd = Some buf"
    and "0 \<le> unitsSinceSplit buf"
    and "unitsSinceSplit buf < splitThreshold buf"
  shows "\<exists>buf'. priv_buffer cmd' = Some buf'
    \<and> splitThreshold buf' = splitThreshold buf
    \<and> 0 \<le> unitsSinceSplit buf' \<and> unitsSinceSplit buf' < splitThreshold buf'"
proof -
  from doExecute_InrD [OF assms(1)] assms(2)
  obtain R where r: "(case range_opt opts of Some r \<Rightarrow> Some r
        | None \<Rightarrow> getFirstRange (selections w (document_selection ed))) = Some R"
    and o: "start R \<le> end_pos R" and i: "end_pos R \<le> length (content w)"
    by auto
  from doExecute_result [OF assms(2) refl r o i] assms(1)
  have "cmd' = cmd\<lparr>priv_buffer := Some
         (if splitThreshold buf \<le> unitsSinceSplit buf +
               int (length (case text_opt opts of None \<Rightarrow> [] | Some t \<Rightarrow> t))
          then buf\<lparr>currentBatch := next_batch w, unitsSinceSplit := 0\<rparr>
          else buf\<lparr>unitsSinceSplit := unitsSinceSplit buf +
               int (length (case text_opt opts of None \<Rightarrow> [] | Some t \<Rightarrow> t))\<rparr>)\<rparr>"
    by auto
  with assms(3,4) show ?thesis
    by auto
qed

text \<open>
  C6, as the code has it. With a collapsed range at a position \<open>P\<close> of the document, the
  empty text and no result position, the execution succeeds whatever the threshold: the
  content is unchanged, the selection it positions ends collapsed at \<open>P\<close>, and the buffer
  is told of 0 units. When the buffer's counter is below its threshold, the command with
  its buffer (counter and current batch) is unchanged and no batch handle is used up. When
  the counter has reached the threshold, as it has for every threshold that is not
  positive, the report of 0 units splits: the buffer then holds the next unused batch with
  counter 0.
\<close>

theorem empty_input_at_cursor_is_noop:
  assumes "priv_buffer cmd = Some buf"
    and "isCollapsed R"
    and "start R \<le> length (content w)"
  shows "\<exists>w' cmd'.
    doExecute ed \<lparr>text_opt = Some [], range_opt = Some R, resultPosition = None\<rparr> (w, cmd)
      = Inr (w', cmd')
    \<and> content w' = content w
    \<and> selections w' (data_model_selection ed) = collapsed_at (start R)
    \<and> calls w' = calls w @
         [WeakInsert_call (ChangeBuffer_batch buf) (start R) [],
          Collapse_call (data_model_selection ed) (start R),
          Input_call 0]
    \<and> (unitsSinceSplit buf < splitThreshold buf \<longrightarrow>
         cmd' = cmd \<and> buffer cmd' = Some buf \<and> next_batch w' = next_batch w)
    \<and> (splitThreshold buf \<le> unitsSinceSplit buf \<longrightarrow>
         buffer cmd' = Some (buf\<lparr>currentBatch := next_batch w, unitsSinceSplit := 0\<rparr>)
         \<and> next_batch w' = Suc (next_batch w))
    \<and> (splitThreshold buf \<le> 0 \<and> 0 \<le> unitsSinceSplit buf \<longrightarrow>
         buffer cmd' = Some (buf\<lparr>currentBatch := next_batch w, unitsSinceSplit := 0\<rparr>)
         \<and> next_batch w' = Suc (next_batch w))"
proof -
  from assms(2) have c: "start R = end_pos R"
    by (simp add: isCollapsed_def)
  with assms(3) have o: "start R \<le> end_pos R" and i: "end_pos R \<le> length (content w)"
    by simp_all
  have same: "cmd\<lparr>priv_buffer := Some buf\<rparr> = cmd"
    using assms(1) by simp
  from doExecute_explicit [OF assms(1) o i, of ed "[]" None] c
  obtain w' cmd' where
    run: "doExecute ed \<lparr>text_opt = Some [], range_opt = Some R, resultPosition = None\<rparr> (w, cmd)
      = Inr (w', cmd')"
    and cont: "content w' = content w"
    and sel: "selections w' (data_model_selection ed) = collapsed_at (start R)"
    and log: "calls w' = calls w @
         [WeakInsert_call (ChangeBuffer_batch buf) (start R) [],
          Collapse_call (data_model_selection ed) (start R),
          Input_call 0]"
    and nb: "next_batch w' =
         (if splitThreshold buf \<le> unitsSinceSplit buf then Suc (next_batch w) else next_batch w)"
    and after: "cmd' = cmd\<lparr>priv_buffer := Some
         (if splitThreshold buf \<le> unitsSinceSplit buf
          then buf\<lparr>currentBatch := next_batch w, unitsSinceSplit := 0\<rparr>
          else buf)\<rparr>"
    by (auto simp: ChangeBuffer_batch_def)
  have keep: "unitsSinceSplit buf < splitThreshold buf \<longrightarrow>
         cmd' = cmd \<and> buffer cmd' = Some buf \<and> next_batch w' = next_batch w"
    using nb after same assms(1) by (simp add: buffer_def)
  have split: "splitThreshold buf \<le> unitsSinceSplit buf \<longrightarrow>
         buffer cmd' = Some (buf\<lparr>currentBatch := next_batch w, unitsSinceSplit := 0\<rparr>)
         \<and> next_batch w' = Suc (next_batch w)"
    using nb after by (simp add: buffer_def)
  then have degenerate: "splitThreshold buf \<le> 0 \<and> 0 \<le> unitsSinceSplit buf \<longrightarrow>
         buffer cmd' = Some (buf\<lparr>currentBatch := next_batch w, unitsSinceSplit := 0\<rparr>)
         \<and> next_batch w' = Suc (next_batch w)"
    by simp
  from run cont sel log keep split degenerate show ?thesis
    by blast
qed

text \<open>
  Both cases on the document \<^verbatim>\<open>hello\<close> with the cursor at offset 2: under threshold 5
  the command keeps batch 0; under threshold 0 (a command as the constructor builds it
  from \<^verbatim>\<open>undoStepSize = 0\<close>) content and selection are as before, and the buffer moves
  to batch 1.
\<close>

theorem empty_input_at_cursor_is_noop_witness:
  "priv_buffer (command_with 5) =
     Some \<lparr>currentBatch = 0, unitsSinceSplit = 0, splitThreshold = 5\<rparr>
   \<and> priv_buffer (command_with 0) =
     Some \<lparr>currentBatch = 0, unitsSinceSplit = 0, splitThreshold = 0\<rparr>
   \<and> isCollapsed \<lparr>start = 2, end_pos = 2\<rparr>
   \<and> start \<lparr>start = 2, end_pos = 2\<rparr> \<le> length (content world_hello)
   \<and> unitsSinceSplit \<lparr>currentBatch = 0, unitsSinceSplit = 0, splitThreshold = 5\<rparr>
       < splitThreshold \<lparr>currentBatch = 0, unitsSinceSplit = 0, splitThreshold = 5\<rparr>
   \<and> splitThreshold \<lparr>currentBatch = 0, unitsSinceSplit = 0, splitThreshold = 0\<rparr> \<le> 0
   \<and> 0 \<le> unitsSinceSplit \<lparr>currentBatch = 0, unitsSinceSplit = 0, splitThreshold = 0\<rparr>
   \<and> (\<exists>w'.
        doExecute editor_shared
          \<lparr>text_opt = Some [], range_opt = Some \<lparr>start = 2, end_pos = 2\<rparr>,
           resultPosition = None\<rparr> (world_hello, command_with 5) = Inr (w', command_with 5)
        \<and> content w' = [104, 101, 108, 108, 111]
        \<and> selections w' (data_model_selection editor_shared) = [\<lparr>start = 2, end_pos = 2\<rparr>]
        \<and> calls w' = [WeakInsert_call 0 2 [], Collapse_call 0 2, Input_call 0]
        \<and> next_batch w' = 1)
   \<and> (\<exists>w' cmd'.
        doExecute editor_shared
          \<lparr>text_opt = Some [], range_opt = Some \<lparr>start = 2, end_pos = 2\<rparr>,
           resultPosition = None\<rparr> (world_hello, command_with 0) = Inr (w', cmd')
        \<and> content w' = [104, 101, 108, 108, 111]
        \<and> selections w' (data_model_selection editor_shared) = [\<lparr>start = 2, end_pos = 2\<rparr>]
        \<and> calls w' = [WeakInsert_call 0 2 [], Collapse_call 0 2, Input_call 0]
        \<and> buffer cmd' = Some \<lparr>currentBatch = 1, unitsSinceSplit = 0, splitThreshold = 0\<rparr>
        \<and> next_batch w' = 2)"
proof -
  let ?buf5 = "\<lparr>currentBatch = 0, unitsSinceSplit = 0, splitThreshold = 5\<rparr>"
  let ?buf0 = "\<lparr>currentBatch = 0, unitsSinceSplit = 0, splitThreshold = 0\<rparr>"
  let ?R = "\<lparr>start = 2, end_pos = 2\<rparr>"
  let ?opts = "\<lparr>text_opt = Some [], range_opt = Some ?R, resultPosition = None\<rparr>"
  have b5: "priv_buffer (command_with 5) = Some ?buf5"
    by (simp add: command_with_def)
  have b0: "priv_buffer (command_with 0) = Some ?buf0"
    by (simp add: command_with_def)
  have c: "isCollapsed ?R"
    by (simp add: isCollapsed_def)
  have i: "start ?R \<le> length (content world_hello)"
    by (simp add: world_hello_def)
  have u: "unitsSinceSplit ?buf5 < splitThreshold ?buf5"
    by simp
  have z: "splitThreshold ?buf0 \<le> 0" and n: "0 \<le> unitsSinceSplit ?buf0"
    by simp_all
  from empty_input_at_cursor_is_noop [OF b5 c i, of editor_shared] u
  obtain w5 where
    run5: "doExecute editor_shared ?opts (world_hello, command_with 5) = Inr (w5, command_with 5)"
    and cont5: "content w5 = content world_hello"
    and sel5: "selections w5 (data_model_selection editor_shared) = collapsed_at (start ?R)"
    and log5: "calls w5 = calls world_hello @
         [WeakInsert_call (ChangeBuffer_batch ?buf5) (start ?R) [],
          Collapse_call (data_model_selection editor_shared) (start ?R),
          Input_call 0]"
    and nb5: "next_batch w5 = next_batch world_hello"
    by auto
  from empty_input_at_cursor_is_noop [OF b0 c i, of editor_shared] z n
  obtain w0 cmd0 where
    run0: "doExecute editor_shared ?opts (world_hello, command_with 0) = Inr (w0, cmd0)"
    and cont0: "content w0 = content world_hello"
    and sel0: "selections w0 (data_model_selection editor_shared) = collapsed_at (start ?R)"
    and log0: "calls w0 = calls world_hello @
         [WeakInsert_call (ChangeBuffer_batch ?buf0) (start ?R) [],
          Collapse_call (data_model_selection editor_shared) (start ?R),
          Input_call 0]"
    and buf0': "buffer cmd0 =
         Some (?buf0\<lparr>currentBatch := next_batch world_hello, unitsSinceSplit := 0\<rparr>)"
    and nb0: "next_batch w0 = Suc (next_batch world_hello)"
    by auto
  have five: "\<exists>w'.
        doExecute editor_shared ?opts (world_hello, command_with 5) = Inr (w', command_with 5)
        \<and> content w' = [104, 101, 108, 108, 111]
        \<and> selections w' (data_model_selection editor_shared) = [?R]
        \<and> calls w' = [WeakInsert_call 0 2 [], Collapse_call 0 2, Input_call 0]
        \<and> next_batch w' = 1"
    using run5 cont5 sel5 log5 nb5
    by (simp add: world_hello_def editor_shared_def collapsed_at_def ChangeBuffer_batch_def)
  have zero: "\<exists>w' cmd'.
        doExecute editor_shared ?opts (world_hello, command_with 0) = Inr (w', cmd')
        \<and> content w' = [104, 101, 108, 108, 111]
        \<and> selections w' (data_model_selection editor_shared) = [?R]
        \<and> calls w' = [WeakInsert_call 0 2 [], Collapse_call 0 2, Input_call 0]
        \<and> buffer cmd' = Some \<lparr>currentBatch = 1, unitsSinceSplit = 0, splitThreshold = 0\<rparr>
        \<and> next_batch w' = 2"
    using run0 cont0 sel0 log0 buf0' nb0
    by (simp add: world_hello_def editor_shared_def collapsed_at_def ChangeBuffer_batch_def)
  from b5 b0 c i u z n five zero show ?thesis
    by blast
qed

text \<open>
  C6 as stated fails for a threshold that is not positive. A command constructed with
  \<^verbatim>\<open>undoStepSize = 0\<close> holds batch 0; after one execution with a collapsed range and the
  empty text, the 0 units reported have reached the threshold and the buffer holds the new
  batch 1.
\<close>

theorem empty_input_splits_at_zero_threshold:
  "new_InputCommand 0 (world_hello\<lparr>next_batch := 0\<rparr>) = (world_hello, command_with 0)
   \<and> buffer (command_with 0) =
       Some \<lparr>currentBatch = 0, unitsSinceSplit = 0, splitThreshold = 0\<rparr>
   \<and> map_sum id snd
       (doExecute editor_shared
          \<lparr>text_opt = Some [], range_opt = Some \<lparr>start = 2, end_pos = 2\<rparr>,
           resultPosition = None\<rparr> (world_hello, command_with 0))
     = Inr \<lparr>priv_buffer = Some \<lparr>currentBatch = 1, unitsSinceSplit = 0, splitThreshold = 0\<rparr>\<rparr>"
proof -
  have b: "priv_buffer (command_with 0) =
      Some \<lparr>currentBatch = 0, unitsSinceSplit = 0, splitThreshold = 0\<rparr>"
    by (simp add: command_with_def)
  have o: "start \<lparr>start = 2, end_pos = 2\<rparr> \<le> end_pos \<lparr>start = 2, end_pos = 2\<rparr>"
    by simp
  have i: "end_pos \<lparr>start = 2, end_pos = 2\<rparr> \<le> length (content world_hello)"
    by (simp add: world_hello_def)
  have made: "new_InputCommand 0 (world_hello\<lparr>next_batch := 0\<rparr>) = (world_hello, command_with 0)"
    by (simp add: new_InputCommand_def new_ChangeBuffer_def world_hello_def command_with_def)
  from doExecute_explicit [OF b o i, of editor_shared "[]" None]
  have "map_sum id snd
       (doExecute editor_shared
          \<lparr>text_opt = Some [], range_opt = Some \<lparr>start = 2, end_pos = 2\<rparr>,
           resultPosition = None\<rparr> (world_hello, command_with 0))
     = Inr \<lparr>priv_buffer = Some \<lparr>currentBatch = 1, unitsSinceSplit = 0, splitThreshold = 0\<rparr>\<rparr>"
    by (auto simp: world_hello_def command_with_def)
  with made b show ?thesis
    by (simp add: buffer_def)
qed

subsection \<open>Batches over a sequence of executions\<close>

lemma textInsertions_of_nonneg: "0 \<le> textInsertions_of opts"
  by (simp add: textInsertions_of_def)

lemma total_units_nonneg: "0 \<le> total_units os"
  unfolding total_units_def by (induction os) (simp_all add: textInsertions_of_nonneg)

lemma total_units_Cons: "total_units (opts # os) = textInsertions_of opts + total_units os"
  by (simp add: total_units_def)

lemma total_units_append: "total_units (xs @ ys) = total_units xs + total_units ys"
  by (simp add: total_units_def)

lemma execute_all_append:
  "execute_all ed (xs @ ys) s =
     (case execute_all ed xs s of Inl e \<Rightarrow> Inl e | Inr s' \<Rightarrow> execute_all ed ys s')"
  by (induction xs arbitrary: s) (simp_all split: sum.splits)

text \<open>
  One successful execution: every mutation it issued went through the batch the buffer
  held at its start, and the buffer afterwards is the result of the one report.
\<close>

lemma doExecute_step:
  assumes run: "doExecute ed opts (w, cmd) = Inr (w', cmd')"
    and buf: "priv_buffer cmd = Some buf"
  shows "(\<exists>new. calls w' = calls w @ new
           \<and> (\<forall>c \<in> set new. call_batch c = None \<or> call_batch c = Some (currentBatch buf)))
    \<and> (if splitThreshold buf \<le> unitsSinceSplit buf + textInsertions_of opts
        then priv_buffer cmd' = Some (buf\<lparr>currentBatch := next_batch w, unitsSinceSplit := 0\<rparr>)
             \<and> next_batch w' = Suc (next_batch w)
        else priv_buffer cmd' =
               Some (buf\<lparr>unitsSinceSplit := unitsSinceSplit buf + textInsertions_of opts\<rparr>)
             \<and> next_batch w' = next_batch w)"
proof -
  let ?T = "case text_opt opts of None \<Rightarrow> [] | Some t \<Rightarrow> t"
  from doExecute_InrD [OF run] buf
  obtain R where r: "(case range_opt opts of Some r \<Rightarrow> Some r
        | None \<Rightarrow> getFirstRange (selections w (document_selection ed))) = Some R"
    and o: "start R \<le> end_pos R" and i: "end_pos R \<le> length (content w)"
    by auto
  let ?new = "(if start R = end_pos R then [] else [Remove_call (currentBatch buf) R]) @
         [WeakInsert_call (currentBatch buf) (start R) ?T] @
         (case resultPosition opts of Some p \<Rightarrow> [Collapse_call (data_model_selection ed) p]
          | None \<Rightarrow> if start R = end_pos R
                    then [Collapse_call (data_model_selection ed) (start R + length ?T)] else []) @
         [Input_call (int (length ?T))]"
  from doExecute_result [OF buf refl r o i] run
  have log: "calls w' = calls w @ ?new"
    and nb: "next_batch w' =
         (if splitThreshold buf \<le> unitsSinceSplit buf + int (length ?T)
          then Suc (next_batch w) else next_batch w)"
    and c: "cmd' = cmd\<lparr>priv_buffer := Some
         (if splitThreshold buf \<le> unitsSinceSplit buf + int (length ?T)
          then buf\<lparr>currentBatch := next_batch w, unitsSinceSplit := 0\<rparr>
          else buf\<lparr>unitsSinceSplit := unitsSinceSplit buf + int (length ?T)\<rparr>)\<rparr>"
    by auto
  have "\<forall>c \<in> set ?new. call_batch c = None \<or> call_batch c = Some (currentBatch buf)"
    by (auto split: option.splits)
  with log have first: "\<exists>new. calls w' = calls w @ new
           \<and> (\<forall>c \<in> set new. call_batch c = None \<or> call_batch c = Some (currentBatch buf))"
    by blast
  from nb c have second: "if splitThreshold buf \<le> unitsSinceSplit buf + textInsertions_of opts
        then priv_buffer cmd' = Some (buf\<lparr>currentBatch := next_batch w, unitsSinceSplit := 0\<rparr>)
             \<and> next_batch w' = Suc (next_batch w)
        else priv_buffer cmd' =
               Some (buf\<lparr>unitsSinceSplit := unitsSinceSplit buf + textInsertions_of opts\<rparr>)
             \<and> next_batch w' = next_batch w"
    by (simp add: textInsertions_of_def)
  from first second show ?thesis ..
qed

text \<open>
  As long as the units reported stay below the threshold, the buffer keeps its batch and
  no batch handle is used up.
\<close>

lemma execute_all_below:
  assumes "execute_all ed os (w, cmd) = Inr (w', cmd')"
    and "priv_buffer cmd = Some buf"
    and "os \<noteq> [] \<longrightarrow> unitsSinceSplit buf + total_units os < splitThreshold buf"
  shows "priv_buffer cmd' = Some (buf\<lparr>unitsSinceSplit := unitsSinceSplit buf + total_units os\<rparr>)
    \<and> next_batch w' = next_batch w
    \<and> (\<exists>new. calls w' = calls w @ new
           \<and> (\<forall>c \<in> set new. call_batch c = None \<or> call_batch c = Some (currentBatch buf)))"
  using assms
proof (induction os arbitrary: w cmd buf)
  case Nil
  then show ?case
    by (simp add: total_units_def)
next
  case (Cons opts os)
  from Cons.prems(1) obtain w1 cmd1
    where step: "doExecute ed opts (w, cmd) = Inr (w1, cmd1)"
      and rest: "execute_all ed os (w1, cmd1) = Inr (w', cmd')"
    by (auto split: sum.splits)
  let ?n = "textInsertions_of opts"
  let ?buf1 = "buf\<lparr>unitsSinceSplit := unitsSinceSplit buf + ?n\<rparr>"
  from Cons.prems(3)
  have total: "unitsSinceSplit buf + ?n + total_units os < splitThreshold buf"
    by (simp add: total_units_Cons)
  with total_units_nonneg [of os]
  have stay: "\<not> splitThreshold buf \<le> unitsSinceSplit buf + ?n"
    by simp
  from doExecute_step [OF step Cons.prems(2)] stay
  obtain new1 where log1: "calls w1 = calls w @ new1"
    and b1: "\<forall>c \<in> set new1. call_batch c = None \<or> call_batch c = Some (currentBatch buf)"
    and buf1: "priv_buffer cmd1 = Some ?buf1"
    and nb1: "next_batch w1 = next_batch w"
    by auto
  from total have "os \<noteq> [] \<longrightarrow>
      unitsSinceSplit ?buf1 + total_units os < splitThreshold ?buf1"
    by simp
  from Cons.IH [OF rest buf1 this]
  obtain new2 where log2: "calls w' = calls w1 @ new2"
    and b2: "\<forall>c \<in> set new2. call_batch c = None \<or> call_batch c = Some (currentBatch buf)"
    and buf2: "priv_buffer cmd' =
        Some (?buf1\<lparr>unitsSinceSplit := unitsSinceSplit ?buf1 + total_units os\<rparr>)"
    and nb2: "next_batch w' = next_batch w1"
    by auto
  from log1 log2 have "calls w' = calls w @ (new1 @ new2)"
    by simp
  moreover from b1 b2
  have "\<forall>c \<in> set (new1 @ new2). call_batch c = None \<or> call_batch c = Some (currentBatch buf)"
    by auto
  ultimately have "\<exists>new. calls w' = calls w @ new
           \<and> (\<forall>c \<in> set new. call_batch c = None \<or> call_batch c = Some (currentBatch buf))"
    by blast
  moreover from buf2 have "priv_buffer cmd' =
      Some (buf\<lparr>unitsSinceSplit := unitsSinceSplit buf + total_units (opts # os)\<rparr>)"
    by (simp add: total_units_Cons add.assoc)
  moreover from nb1 nb2 have "next_batch w' = next_batch w"
    by simp
  ultimately show ?case
    by blast
qed

text \<open>
  C4. A command is constructed with threshold \<open>K\<close>; its buffer holds the batch \<open>b\<close> the
  constructor opened. A sequence of executions follows in which the units inserted first
  reach \<open>K\<close> at the last call (\<open>opts\<close>, after the calls \<open>pre\<close>). Then before every one
  of these calls the buffer's \<^verbatim>\<open>batch\<close> is \<open>b\<close>, every mutation the calls issued went
  through \<open>b\<close>, and after the last call the buffer holds a batch that is not \<open>b\<close> and was
  never handed out before, with counter 0. \<^verbatim>\<open>input(n)\<close> adds \<open>n\<close> to the counter and, when
  the new count has reached the threshold, opens the next unused batch with counter 0.
\<close>

theorem batch_shared_until_threshold:
  assumes run: "execute_all ed (pre @ [opts]) (new_InputCommand K w) = Inr (w', cmd')"
    and below: "pre \<noteq> [] \<longrightarrow> total_units pre < K"
    and reach: "K \<le> total_units (pre @ [opts])"
  shows "(\<forall>k \<le> length pre. \<exists>wk ck bufk.
            execute_all ed (take k pre) (new_InputCommand K w) = Inr (wk, ck)
            \<and> buffer ck = Some bufk \<and> ChangeBuffer_batch bufk = next_batch w)
    \<and> (\<exists>new. calls w' = calls w @ new
          \<and> (\<forall>c \<in> set new. call_batch c = None \<or> call_batch c = Some (next_batch w)))
    \<and> (\<exists>buf'. buffer cmd' = Some buf'
          \<and> ChangeBuffer_batch buf' \<noteq> next_batch w
          \<and> next_batch (fst (new_InputCommand K w)) \<le> ChangeBuffer_batch buf'
          \<and> unitsSinceSplit buf' = 0)
    \<and> ChangeBuffer_input n (w1, buf1) =
        (if splitThreshold buf1 \<le> unitsSinceSplit buf1 + n
         then ((log_call (Input_call n) w1)\<lparr>next_batch := Suc (next_batch w1)\<rparr>,
               buf1\<lparr>currentBatch := next_batch w1, unitsSinceSplit := 0\<rparr>)
         else (log_call (Input_call n) w1, buf1\<lparr>unitsSinceSplit := unitsSinceSplit buf1 + n\<rparr>))"
proof -
  let ?b = "next_batch w"
  let ?w0 = "w\<lparr>next_batch := Suc ?b\<rparr>"
  let ?buf0 = "\<lparr>currentBatch = ?b, unitsSinceSplit = 0, splitThreshold = K\<rparr>"
  let ?cmd0 = "\<lparr>priv_buffer = Some ?buf0\<rparr>"
  have made: "new_InputCommand K w = (?w0, ?cmd0)"
    by (simp add: new_InputCommand_def new_ChangeBuffer_def)
  have buf0: "priv_buffer ?cmd0 = Some ?buf0"
    by simp
  have prefixes: "\<forall>k \<le> length pre. \<exists>wk ck bufk.
            execute_all ed (take k pre) (new_InputCommand K w) = Inr (wk, ck)
            \<and> buffer ck = Some bufk \<and> ChangeBuffer_batch bufk = ?b"
  proof (intro allI impI)
    fix k
    assume "k \<le> length pre"
    have "pre @ [opts] = take k pre @ (drop k pre @ [opts])"
      by simp
    with run have "execute_all ed (take k pre @ (drop k pre @ [opts])) (?w0, ?cmd0) = Inr (w', cmd')"
      by (simp add: made)
    then obtain wk ck where part: "execute_all ed (take k pre) (?w0, ?cmd0) = Inr (wk, ck)"
      by (auto simp: execute_all_append split: sum.splits)
    have "total_units pre = total_units (take k pre) + total_units (drop k pre)"
      using total_units_append [of "take k pre" "drop k pre"] by simp
    with total_units_nonneg [of "drop k pre"] below
    have "take k pre \<noteq> [] \<longrightarrow> unitsSinceSplit ?buf0 + total_units (take k pre) < splitThreshold ?buf0"
      by auto
    from execute_all_below [OF part buf0 this]
    have "priv_buffer ck = Some (?buf0\<lparr>unitsSinceSplit := unitsSinceSplit ?buf0 + total_units (take k pre)\<rparr>)"
      by simp
    with part show "\<exists>wk ck bufk.
            execute_all ed (take k pre) (new_InputCommand K w) = Inr (wk, ck)
            \<and> buffer ck = Some bufk \<and> ChangeBuffer_batch bufk = ?b"
      by (simp add: made buffer_def ChangeBuffer_batch_def)
  qed
  from run obtain w1' c1 where first: "execute_all ed pre (?w0, ?cmd0) = Inr (w1', c1)"
    and final: "doExecute ed opts (w1', c1) = Inr (w', cmd')"
    by (auto simp: made execute_all_append split: sum.splits)
  from below have "pre \<noteq> [] \<longrightarrow> unitsSinceSplit ?buf0 + total_units pre < splitThreshold ?buf0"
    by simp
  from execute_all_below [OF first buf0 this]
  obtain new1 where c1: "priv_buffer c1 = Some (?buf0\<lparr>unitsSinceSplit := total_units pre\<rparr>)"
    and nb1: "next_batch w1' = Suc ?b"
    and log1: "calls w1' = calls w @ new1"
    and b1: "\<forall>c \<in> set new1. call_batch c = None \<or> call_batch c = Some ?b"
    by auto
  from reach have split: "splitThreshold (?buf0\<lparr>unitsSinceSplit := total_units pre\<rparr>)
      \<le> unitsSinceSplit (?buf0\<lparr>unitsSinceSplit := total_units pre\<rparr>) + textInsertions_of opts"
    by (simp add: total_units_append total_units_def)
  from doExecute_step [OF final c1] split nb1
  obtain new2 where log2: "calls w' = calls w1' @ new2"
    and b2: "\<forall>c \<in> set new2. call_batch c = None \<or> call_batch c = Some ?b"
    and after: "priv_buffer cmd' =
        Some \<lparr>currentBatch = Suc ?b, unitsSinceSplit = 0, splitThreshold = K\<rparr>"
    by auto
  from log1 log2 have "calls w' = calls w @ (new1 @ new2)"
    by simp
  moreover from b1 b2
  have "\<forall>c \<in> set (new1 @ new2). call_batch c = None \<or> call_batch c = Some ?b"
    by auto
  ultimately have shared: "\<exists>new. calls w' = calls w @ new
          \<and> (\<forall>c \<in> set new. call_batch c = None \<or> call_batch c = Some ?b)"
    by blast
  from after have fresh: "\<exists>buf'. buffer cmd' = Some buf'
          \<and> ChangeBuffer_batch buf' \<noteq> ?b
          \<and> next_batch (fst (new_InputCommand K w)) \<le> ChangeBuffer_batch buf'
          \<and> unitsSinceSplit buf' = 0"
    by (simp add: made buffer_def ChangeBuffer_batch_def)
  have input: "ChangeBuffer_input n (w1, buf1) =
        (if splitThreshold buf1 \<le> unitsSinceSplit buf1 + n
         then ((log_call (Input_call n) w1)\<lparr>next_batch := Suc (next_batch w1)\<rparr>,
               buf1\<lparr>currentBatch := next_batch w1, unitsSinceSplit := 0\<rparr>)
         else (log_call (Input_call n) w1, buf1\<lparr>unitsSinceSplit := unitsSinceSplit buf1 + n\<rparr>))"
    by (simp add: ChangeBuffer_input_def Let_def log_call_def)
  from prefixes shared fresh input show ?thesis
    by (intro conjI)
qed

text \<open>
  The scenario of threshold 5: the single units \<^verbatim>\<open>a\<close>, \<^verbatim>\<open>b\<close>, \<^verbatim>\<open>c\<close> typed at the
  advancing positions 0, 1, 2 and then the two units \<^verbatim>\<open>de\<close> at position 3. The command was
  constructed with batch 1; the four calls go through batch 1 and the buffer then holds
  batch 2.
\<close>

theorem batch_shared_until_threshold_witness:
  "total_units
     [\<lparr>text_opt = Some [97], range_opt = Some \<lparr>start = 0, end_pos = 0\<rparr>, resultPosition = None\<rparr>,
      \<lparr>text_opt = Some [98], range_opt = Some \<lparr>start = 1, end_pos = 1\<rparr>, resultPosition = None\<rparr>,
      \<lparr>text_opt = Some [99], range_opt = Some \<lparr>start = 2, end_pos = 2\<rparr>, resultPosition = None\<rparr>]
     < 5
   \<and> 5 \<le> total_units
     ([\<lparr>text_opt = Some [97], range_opt = Some \<lparr>start = 0, end_pos = 0\<rparr>, resultPosition = None\<rparr>,
       \<lparr>text_opt = Some [98], range_opt = Some \<lparr>start = 1, end_pos = 1\<rparr>, resultPosition = None\<rparr>,
       \<lparr>text_opt = Some [99], range_opt = Some \<lparr>start = 2, end_pos = 2\<rparr>, resultPosition = None\<rparr>]
      @ [\<lparr>text_opt = Some [100, 101], range_opt = Some \<lparr>start = 3, end_pos = 3\<rparr>,
          resultPosition = None\<rparr>])
   \<and> (\<exists>w' cmd' buf' w3 c3 buf3.
        execute_all editor_shared
          ([\<lparr>text_opt = Some [97], range_opt = Some \<lparr>start = 0, end_pos = 0\<rparr>, resultPosition = None\<rparr>,
            \<lparr>text_opt = Some [98], range_opt = Some \<lparr>start = 1, end_pos = 1\<rparr>, resultPosition = None\<rparr>,
            \<lparr>text_opt = Some [99], range_opt = Some \<lparr>start = 2, end_pos = 2\<rparr>, resultPosition = None\<rparr>]
           @ [\<lparr>text_opt = Some [100, 101], range_opt = Some \<lparr>start = 3, end_pos = 3\<rparr>,
               resultPosition = None\<rparr>])
          (new_InputCommand 5 world_hello) = Inr (w', cmd')
        \<and> content w' = [97, 98, 99, 100, 101, 104, 101, 108, 108, 111]
        \<and> buffer cmd' = Some buf' \<and> ChangeBuffer_batch buf' = 2
        \<and> execute_all editor_shared
          [\<lparr>text_opt = Some [97], range_opt = Some \<lparr>start = 0, end_pos = 0\<rparr>, resultPosition = None\<rparr>,
           \<lparr>text_opt = Some [98], range_opt = Some \<lparr>start = 1, end_pos = 1\<rparr>, resultPosition = None\<rparr>,
           \<lparr>text_opt = Some [99], range_opt = Some \<lparr>start = 2, end_pos = 2\<rparr>, resultPosition = None\<rparr>]
          (new_InputCommand 5 world_hello) = Inr (w3, c3)
        \<and> buffer c3 = Some buf3 \<and> ChangeBuffer_batch buf3 = 1)"
proof -
  let ?a = "\<lparr>text_opt = Some [97], range_opt = Some \<lparr>start = 0, end_pos = 0\<rparr>,
             resultPosition = None\<rparr>"
  let ?b = "\<lparr>text_opt = Some [98], range_opt = Some \<lparr>start = 1, end_pos = 1\<rparr>,
             resultPosition = None\<rparr>"
  let ?c = "\<lparr>text_opt = Some [99], range_opt = Some \<lparr>start = 2, end_pos = 2\<rparr>,
             resultPosition = None\<rparr>"
  let ?de = "\<lparr>text_opt = Some [100, 101], range_opt = Some \<lparr>start = 3, end_pos = 3\<rparr>,
             resultPosition = None\<rparr>"
  let ?s0 = "new_InputCommand 5 world_hello"
  have less: "total_units [?a, ?b, ?c] < 5"
    by (simp add: total_units_def textInsertions_of_def)
  have reach: "5 \<le> total_units ([?a, ?b, ?c] @ [?de])"
    by (simp add: total_units_def textInsertions_of_def)
  have "\<exists>w' cmd'. execute_all editor_shared ([?a, ?b, ?c] @ [?de]) ?s0 = Inr (w', cmd')
      \<and> content w' = [97, 98, 99, 100, 101, 104, 101, 108, 108, 111]"
    by (simp add: model_defs new_InputCommand_def new_ChangeBuffer_def world_hello_def
          editor_shared_def Let_def)
  then obtain w' cmd' where run: "execute_all editor_shared ([?a, ?b, ?c] @ [?de]) ?s0 = Inr (w', cmd')"
    and cont: "content w' = [97, 98, 99, 100, 101, 104, 101, 108, 108, 111]"
    by blast
  from less have below: "[?a, ?b, ?c] \<noteq> [] \<longrightarrow> total_units [?a, ?b, ?c] < 5"
    by simp
  note inst = batch_shared_until_threshold [OF run below reach]
  from inst obtain buf' where after: "buffer cmd' = Some buf'"
    and differs: "next_batch (fst ?s0) \<le> ChangeBuffer_batch buf'"
    and other: "ChangeBuffer_batch buf' \<noteq> next_batch world_hello"
    by blast
  from inst have every: "\<forall>k \<le> length [?a, ?b, ?c]. \<exists>wk ck bufk.
            execute_all editor_shared (take k [?a, ?b, ?c]) ?s0 = Inr (wk, ck)
            \<and> buffer ck = Some bufk \<and> ChangeBuffer_batch bufk = next_batch world_hello"
    by blast
  have "(3::nat) \<le> length [?a, ?b, ?c]"
    by simp
  with every obtain w3 c3 buf3
    where part: "execute_all editor_shared (take 3 [?a, ?b, ?c]) ?s0 = Inr (w3, c3)"
      and b3: "buffer c3 = Some buf3"
      and n3: "ChangeBuffer_batch buf3 = next_batch world_hello"
    by blast
  have "take 3 [?a, ?b, ?c] = [?a, ?b, ?c]"
    by simp
  with part have three: "execute_all editor_shared [?a, ?b, ?c] ?s0 = Inr (w3, c3)"
    by (simp only:)
  from n3 have h3: "ChangeBuffer_batch buf3 = 1"
    by (simp add: world_hello_def)
  from run after
  have "ChangeBuffer_batch buf' = 2"
    by (auto simp: model_defs new_InputCommand_def new_ChangeBuffer_def world_hello_def
          editor_shared_def Let_def buffer_def)
  with less reach run cont after three b3 h3 show ?thesis
    by blast
qed

end
